theory Spec2Isabelle
  imports Complex_Main "HOL-Library.Word"
begin

section \<open>The OTP gateway's HTTP handlers (handlers.go)\<close>

text \<open>
  The development follows \<^verbatim>\<open>handlers.go\<close>: the random string generator, the lockout
  test, the verification routine \<^verbatim>\<open>checkOTP\<close> and the two API handlers
  \<^verbatim>\<open>handleSetOTP\<close> (Issue) and \<^verbatim>\<open>handleCheckOTP\<close> (Verify). Go's effects are made
  explicit: the store is an interface value whose methods take and return the store's
  state, every call of a store method is recorded in a trace, the random source is a
  tape of bytes, a run-time panic is an outcome of its own, and the HTTP response a
  handler writes is the value it returns.
\<close>

subsection \<open>Data\<close>

type_synonym byte = "8 word"

text \<open>
  A Go \<^verbatim>\<open>error\<close>. The handlers compare errors with the sentinel
  \<^verbatim>\<open>otpgateway.ErrNotExist\<close> and otherwise only read their text; \<open>Err m\<close> is any
  other error, with text \<open>m\<close> (\<^verbatim>\<open>errors.New(m)\<close> among them). The sentinel's text is
  declared outside \<^verbatim>\<open>handlers.go\<close>, so \<open>Error\<close> takes it as its first argument.
\<close>

datatype error = ErrNotExist | Err string

fun Error :: "string \<Rightarrow> error \<Rightarrow> string" where
  "Error notExistText ErrNotExist = notExistText"
| "Error notExistText (Err m) = m"

text \<open>
  \<^verbatim>\<open>otpgateway.OTP\<close>, with the fields the handlers read and write. \<open>TTL\<close> is a
  \<^verbatim>\<open>time.Duration\<close>, a count of nanoseconds; \<open>TTLSeconds\<close> is a float64, kept as a real.
\<close>

record OTP =
  Namespace :: string
  ID :: string
  To :: string
  Description :: string
  Provider :: string
  OTP :: string
  MaxAttempts :: int
  Attempts :: int
  Closed :: bool
  TTL :: int
  TTLSeconds :: real

record otpResp =
  otp_embedded :: OTP
  URL :: string

record otpErrResp =
  errTTL :: real
  errAttempts :: int
  errMaxAttempts :: int

text \<open>
  The \<^verbatim>\<open>Data interface{}\<close> of the JSON envelope: one constructor for each dynamic type
  the handlers put there, \<open>NoData\<close> for \<^verbatim>\<open>nil\<close>.
\<close>

datatype resp_data =
    NoData
  | DataOTP OTP
  | DataOTPResp otpResp
  | DataErrResp otpErrResp
  | DataBool bool

record httpResp =
  Status :: string
  Message :: string
  Data :: resp_data

text \<open>What a handler leaves behind: the response written, or a panic that wrote none.\<close>

datatype outcome = Panicked | Responded nat httpResp

datatype 'a go = Panic | Ret 'a

definition StatusOK :: nat where "StatusOK = 200"
definition StatusBadRequest :: nat where "StatusBadRequest = 400"
definition StatusInternalServerError :: nat where "StatusInternalServerError = 500"

definition alphaChars :: string where
  "alphaChars = ''ABCDEFGHIJKLMNOPQRSTUVWXYZabcdefghijklmnopqrstuvwxyz''"

definition numChars :: string where
  "numChars = ''0123456789''"

definition alphaNumChars :: string where
  "alphaNumChars = alphaChars @ numChars"

subsection \<open>The random string generator\<close>

text \<open>
  \<^verbatim>\<open>crypto/rand.Read\<close> fills the whole buffer or fails. The source is a tape of bytes:
  a read of \<open>n\<close> bytes takes them from the front of the tape, and fails with the
  source's error \<open>failure\<close> once the tape holds fewer than \<open>n\<close>.
\<close>

record rand_source =
  tape :: "byte list"
  failure :: error

definition rand_Read :: "nat \<Rightarrow> rand_source \<Rightarrow> (byte list \<times> error option) \<times> rand_source" where
  "rand_Read n rs =
     (if n \<le> length (tape rs)
      then ((take n (tape rs), None), rs\<lparr>tape := drop n (tape rs)\<rparr>)
      else ((replicate n 0, Some (failure rs)), rs))"

text \<open>
  The loop body \<^verbatim>\<open>bytes[k] = chars[v%byte(len(chars))]\<close>: the length is converted to a
  byte (so it wraps at 256) and the remainder indexes the alphabet.
\<close>

definition symbol :: "string \<Rightarrow> byte \<Rightarrow> char" where
  "symbol chars v = chars ! unat (v mod (of_nat (length chars) :: byte))"

text \<open>
  \<^verbatim>\<open>generateRandomString\<close>. \<^verbatim>\<open>make\<close> panics on a negative length, and the remainder
  panics on a zero divisor as soon as the loop runs once.
\<close>

definition generateRandomString ::
  "int \<Rightarrow> string \<Rightarrow> rand_source \<Rightarrow> (string \<times> error option) go \<times> rand_source" where
  "generateRandomString totalLen chars rs =
     (if totalLen < 0 then (Panic, rs)
      else (case rand_Read (nat totalLen) rs of
              ((bytes, Some err), rs') \<Rightarrow> (Ret ([], Some err), rs')
            | ((bytes, None), rs') \<Rightarrow>
                (if bytes \<noteq> [] \<and> (of_nat (length chars) :: byte) = 0 then (Panic, rs')
                 else (Ret (map (symbol chars) bytes, None), rs'))))"

subsection \<open>The lockout test\<close>

definition isLocked :: "OTP \<Rightarrow> bool" where
  "isLocked otp = (if Attempts otp > MaxAttempts otp then True else False)"

subsection \<open>Providers, templates, the store interface and the application\<close>

text \<open>
  \<^verbatim>\<open>otpgateway.Provider\<close> is an interface; a provider is the record of its methods'
  results. \<open>provID\<close> and \<open>provDescription\<close> are the methods \<^verbatim>\<open>ID()\<close> and
  \<^verbatim>\<open>Description()\<close> (the record \<open>OTP\<close> has fields of those names).
\<close>

record Provider =
  provID :: string
  ChannelName :: string
  provDescription :: string
  ValidateAddress :: "string \<Rightarrow> error option"
  Push :: "string \<Rightarrow> string \<Rightarrow> string \<Rightarrow> error option"
  MaxOTPLen :: int
  MaxBodyLen :: int

record pushTpl =
  tplTo :: string
  tplNamespace :: string
  tplChannel :: string
  tplOTP :: string
  tplOTPURL :: string

text \<open>
  A compiled template is the function \<^verbatim>\<open>Execute\<close> computes: the rendered text, or an
  error.
\<close>

record providerTpl =
  subject :: "pushTpl \<Rightarrow> error + string"
  tpl :: "pushTpl \<Rightarrow> error + string"

text \<open>
  \<^verbatim>\<open>app.store\<close> is a value of the interface \<^verbatim>\<open>otpgateway.Store\<close>, whose
  implementations are not part of \<^verbatim>\<open>handlers.go\<close>. A store is the record of its three
  methods over a state \<open>'s\<close> of its own; each takes the state and returns the new one
  beside its results. \<^verbatim>\<open>Check(namespace, id, counter)\<close> and \<^verbatim>\<open>Set(namespace, id, otp)\<close>
  return a record and an error, as the handlers read them; the handlers read nothing of
  what \<^verbatim>\<open>Close(namespace, id)\<close> returns.
\<close>

record 's Store =
  Check :: "'s \<Rightarrow> string \<Rightarrow> string \<Rightarrow> bool \<Rightarrow> (OTP \<times> error option) \<times> 's"
  Set :: "'s \<Rightarrow> string \<Rightarrow> string \<Rightarrow> OTP \<Rightarrow> (OTP \<times> error option) \<times> 's"
  Close :: "'s \<Rightarrow> string \<Rightarrow> string \<Rightarrow> (OTP \<times> error option) \<times> 's"

text \<open>The fields of \<^verbatim>\<open>App\<close> that the two API handlers and \<^verbatim>\<open>checkOTP\<close> read.\<close>

record 's App =
  providers :: "string \<rightharpoonup> Provider"
  providerTpls :: "string \<rightharpoonup> providerTpl"
  otpTTL :: int
  otpMaxAttempts :: int
  RootURL :: string
  store :: "'s Store"

datatype store_call =
    CallCheck string string bool
  | CallSet string string OTP
  | CallClose string string

text \<open>
  Everything a handler can change: the store's state, the trace of the store methods
  called so far, the random source, the lines logged (format and argument) and the
  messages handed to a provider's \<^verbatim>\<open>Push\<close> (recipient, subject, body).
\<close>

record 's world =
  store_state :: 's
  calls :: "store_call list"
  rand :: rand_source
  logged :: "(string \<times> error option) list"
  pushed :: "(string \<times> string \<times> string) list"

text \<open>
  What a handler reads of the request: the namespace the authentication middleware put
  in the context, the URL parameter \<^verbatim>\<open>id\<close> and the form values.
\<close>

record request =
  ctx_namespace :: string
  url_id :: string
  form :: "string \<rightharpoonup> string"

definition FormValue :: "request \<Rightarrow> string \<Rightarrow> string" where
  "FormValue r k = (case form r k of None \<Rightarrow> [] | Some v \<Rightarrow> v)"

definition logger_Printf :: "string \<Rightarrow> error option \<Rightarrow> 's world \<Rightarrow> 's world" where
  "logger_Printf fmt err w = w\<lparr>logged := logged w @ [(fmt, err)]\<rparr>"

definition store_Check ::
  "'s App \<Rightarrow> string \<Rightarrow> string \<Rightarrow> bool \<Rightarrow> 's world \<Rightarrow> (OTP \<times> error option) \<times> 's world" where
  "store_Check app namespace id' counter w =
     (case Check (store app) (store_state w) namespace id' counter of
        (res, s') \<Rightarrow>
          (res, w\<lparr>store_state := s', calls := calls w @ [CallCheck namespace id' counter]\<rparr>))"

definition store_Set ::
  "'s App \<Rightarrow> string \<Rightarrow> string \<Rightarrow> OTP \<Rightarrow> 's world \<Rightarrow> (OTP \<times> error option) \<times> 's world" where
  "store_Set app namespace id' otp w =
     (case Set (store app) (store_state w) namespace id' otp of
        (res, s') \<Rightarrow>
          (res, w\<lparr>store_state := s', calls := calls w @ [CallSet namespace id' otp]\<rparr>))"

definition store_Close ::
  "'s App \<Rightarrow> string \<Rightarrow> string \<Rightarrow> 's world \<Rightarrow> (OTP \<times> error option) \<times> 's world" where
  "store_Close app namespace id' w =
     (case Close (store app) (store_state w) namespace id' of
        (res, s') \<Rightarrow>
          (res, w\<lparr>store_state := s', calls := calls w @ [CallClose namespace id']\<rparr>))"

subsection \<open>Formatting\<close>

text \<open>
  \<^verbatim>\<open>Duration.Seconds()\<close>, and the text \<^verbatim>\<open>%0.f\<close> prints for it: the duration in seconds
  rounded to a whole number, ties to the even one, with the sign of the duration. Go
  goes through float64; the rounding of float64 itself is left out.
\<close>

definition Seconds :: "int \<Rightarrow> real" where
  "Seconds d = real_of_int d / 1000000000"

function decimal :: "nat \<Rightarrow> string" where
  "decimal n =
     (if n < 10 then [''0123456789'' ! n]
      else decimal (n div 10) @ [''0123456789'' ! (n mod 10)])"
  by pat_completeness auto
termination
  by (relation "measure (\<lambda>n. n)") auto

definition round_half_even :: "int \<Rightarrow> int \<Rightarrow> int" where
  "round_half_even a b =
     (let q = a div b; r = a mod b in
      if 2 * r < b then q
      else if b < 2 * r then q + 1
      else if even q then q else q + 1)"

definition fmtSeconds :: "int \<Rightarrow> string" where
  "fmtSeconds d =
     (let n = round_half_even d 1000000000 in
      if d < 0 then CHR ''-'' # decimal (nat (- n)) else decimal (nat n))"

definition getURL :: "string \<Rightarrow> OTP \<Rightarrow> bool \<Rightarrow> string" where
  "getURL rootURL otp check =
     (if check
      then rootURL @ ''/otp/'' @ Namespace otp @ ''/'' @ ID otp @ ''?otp='' @ OTP otp
             @ ''&action=check''
      else rootURL @ ''/otp/'' @ Namespace otp @ ''/'' @ ID otp)"

subsection \<open>Responses\<close>

text \<open>
  \<^verbatim>\<open>sendResponse\<close> and \<^verbatim>\<open>sendErrorResponse\<close>. The JSON encoding of the envelope is not
  part of the model: a response is the status code and the envelope.
\<close>

definition sendResponse :: "resp_data \<Rightarrow> outcome" where
  "sendResponse data = Responded StatusOK \<lparr>Status = ''success'', Message = [], Data = data\<rparr>"

definition sendErrorResponse :: "string \<Rightarrow> nat \<Rightarrow> resp_data \<Rightarrow> outcome" where
  "sendErrorResponse message code data =
     Responded code \<lparr>Status = ''error'', Message = message, Data = data\<rparr>"

subsection \<open>Delivery\<close>

text \<open>
  \<^verbatim>\<open>push\<close>. The template comes from \<^verbatim>\<open>app.providerTpls[pro.ID()]\<close>: a missing entry is
  a nil pointer, and reading its \<^verbatim>\<open>subject\<close> panics.
\<close>

definition push ::
  "OTP \<Rightarrow> providerTpl option \<Rightarrow> Provider \<Rightarrow> string \<Rightarrow> 's world \<Rightarrow> error option go \<times> 's world" where
  "push otp tp p rootURL w =
     (let data = \<lparr>tplTo = To otp, tplNamespace = Namespace otp, tplChannel = ChannelName p,
                  tplOTP = OTP otp, tplOTPURL = getURL rootURL otp True\<rparr> in
      case tp of
        None \<Rightarrow> (Panic, w)
      | Some t \<Rightarrow>
          (case subject t data of
             Inl err \<Rightarrow> (Ret (Some err), w)
           | Inr subj \<Rightarrow>
               (case tpl t data of
                  Inl err \<Rightarrow> (Ret (Some err), w)
                | Inr out \<Rightarrow>
                    (Ret (Push p (To otp) subj out),
                     w\<lparr>pushed := pushed w @ [(To otp, subj, out)]\<rparr>))))"

subsection \<open>Verification\<close>

text \<open>\<^verbatim>\<open>checkOTP\<close>: the incrementing read, the lockout test, the comparison, the closure.\<close>

definition checkOTP ::
  "string \<Rightarrow> string \<Rightarrow> string \<Rightarrow> 's App \<Rightarrow> 's world \<Rightarrow> (OTP \<times> error option) \<times> 's world" where
  "checkOTP namespace id' otp app w =
     (case store_Check app namespace id' True w of
        ((out, Some err), w1) \<Rightarrow>
          (if err = ErrNotExist then ((out, Some err), w1)
           else ((out, Some err), logger_Printf ''error checking OTP: %v'' (Some err) w1))
      | ((out, None), w1) \<Rightarrow>
          (let errMsg =
             (if isLocked out
              then ''Too many attempts. Please retry after '' @ fmtSeconds (TTL out) @ '' seconds.''
              else if OTP out \<noteq> otp then ''OTP does not match''
              else []) in
           if errMsg \<noteq> [] then ((out, Some (Err errMsg)), w1)
           else (case store_Close app namespace id' w1 of
                   (_, w2) \<Rightarrow> ((out\<lparr>Closed := True\<rparr>, None), w2))))"

text \<open>\<^verbatim>\<open>handleCheckOTP\<close>, the handler of \<^verbatim>\<open>POST /api/otp/{id}\<close>.\<close>

definition handleCheckOTP :: "string \<Rightarrow> 's App \<Rightarrow> request \<Rightarrow> 's world \<Rightarrow> outcome \<times> 's world" where
  "handleCheckOTP notExistText app r w =
     (let namespace = ctx_namespace r; id' = url_id r; otpVal = FormValue r ''otp'' in
      if length id' < 6
      then (sendErrorResponse ''ID should be min 6 chars'' StatusBadRequest NoData, w)
      else if otpVal = []
      then (sendErrorResponse ''`otp` is empty'' StatusBadRequest NoData, w)
      else (case checkOTP namespace id' otpVal app w of
              ((out, Some err), w') \<Rightarrow>
                (sendErrorResponse (Error notExistText err) StatusBadRequest (DataOTP out), w')
            | ((out, None), w') \<Rightarrow> (sendResponse (DataBool True), w')))"

subsection \<open>Issuance\<close>

text \<open>
  \<^verbatim>\<open>handleSetOTP\<close>, the handler of \<^verbatim>\<open>PUT /api/otp/{id}\<close>, in three parts.
  \<open>handleSetOTP_store\<close> is its end, from the comment "Check if the OTP attempts have
  exceeded the quota": the read that does not count, the lockout test, \<^verbatim>\<open>Set\<close>, the
  delivery and the answer.
\<close>

definition handleSetOTP_store ::
  "'s App \<Rightarrow> Provider \<Rightarrow> string \<Rightarrow> string \<Rightarrow> string \<Rightarrow> string \<Rightarrow> string \<Rightarrow> string \<Rightarrow> 's world
     \<Rightarrow> outcome \<times> 's world" where
  "handleSetOTP_store app pro namespace id' provider description to otpVal w =
     (case store_Check app namespace id' False w of
        ((otp, err), w1) \<Rightarrow>
          if err \<noteq> None \<and> err \<noteq> Some ErrNotExist
          then (sendErrorResponse ''error checking OTP status'' StatusBadRequest NoData,
                logger_Printf ''error checking OTP status: %v'' err w1)
          else if err \<noteq> Some ErrNotExist \<and> isLocked otp
          then (sendErrorResponse
                  (''OTP attempts exceeded. Retry after '' @ fmtSeconds (TTL otp) @ '' seconds.'')
                  StatusBadRequest
                  (DataErrResp \<lparr>errTTL = Seconds (TTL otp), errAttempts = Attempts otp,
                                errMaxAttempts = otpMaxAttempts app\<rparr>),
                w1)
          else (case store_Set app namespace id'
                       \<lparr>Namespace = [], ID = [], To = to, Description = description,
                        Provider = provider, OTP = otpVal, MaxAttempts = otpMaxAttempts app,
                        Attempts = 0, Closed = False, TTL = otpTTL app, TTLSeconds = 0\<rparr> w1 of
                  ((newOTP, Some e), w2) \<Rightarrow>
                    (sendErrorResponse ''error setting OTP'' StatusInternalServerError NoData,
                     logger_Printf ''error setting OTP: %v'' (Some e) w2)
                | ((newOTP, None), w2) \<Rightarrow>
                    (case push newOTP (providerTpls app (provID pro)) pro (RootURL app) w2 of
                       (Panic, w3) \<Rightarrow> (Panicked, w3)
                     | (Ret (Some e), w3) \<Rightarrow>
                         (sendErrorResponse ''error sending OTP'' StatusInternalServerError NoData,
                          logger_Printf ''error sending OTP: %v'' (Some e) w3)
                     | (Ret None, w3) \<Rightarrow>
                         (sendResponse
                            (DataOTPResp \<lparr>otp_embedded = newOTP,
                                          URL = getURL (RootURL app) newOTP False\<rparr>),
                          w3))))"

text \<open>\<open>handleSetOTP_otp\<close>: from "If there's no incoming OTP, generate a random one" on.\<close>

definition handleSetOTP_otp ::
  "'s App \<Rightarrow> Provider \<Rightarrow> string \<Rightarrow> string \<Rightarrow> string \<Rightarrow> string \<Rightarrow> string \<Rightarrow> string \<Rightarrow> 's world
     \<Rightarrow> outcome \<times> 's world" where
  "handleSetOTP_otp app pro namespace id' provider description to otpVal w =
     (if otpVal = []
      then (case generateRandomString (MaxOTPLen pro) numChars (rand w) of
              (Panic, rs) \<Rightarrow> (Panicked, w\<lparr>rand := rs\<rparr>)
            | (Ret (o', Some err), rs) \<Rightarrow>
                (sendErrorResponse ''error generating OTP'' StatusInternalServerError NoData,
                 logger_Printf ''error generating OTP: %v'' (Some err) (w\<lparr>rand := rs\<rparr>))
            | (Ret (o', None), rs) \<Rightarrow>
                handleSetOTP_store app pro namespace id' provider description to o'
                  (w\<lparr>rand := rs\<rparr>))
      else handleSetOTP_store app pro namespace id' provider description to otpVal w)"

text \<open>\<open>handleSetOTP\<close>: the provider, the address, the id, and then the rest.\<close>

definition handleSetOTP :: "string \<Rightarrow> 's App \<Rightarrow> request \<Rightarrow> 's world \<Rightarrow> outcome \<times> 's world" where
  "handleSetOTP notExistText app r w =
     (let namespace = ctx_namespace r; id' = url_id r; provider = FormValue r ''provider'';
          description = FormValue r ''description''; to = FormValue r ''to'';
          otpVal = FormValue r ''otp'' in
      case providers app provider of
        None \<Rightarrow> (sendErrorResponse ''unknown provider'' StatusBadRequest NoData, w)
      | Some pro \<Rightarrow>
          (case ValidateAddress pro to of
             Some err \<Rightarrow>
               (sendErrorResponse (''invalid `to` address: '' @ Error notExistText err)
                  StatusBadRequest NoData, w)
           | None \<Rightarrow>
               if length id' < 6
               then (sendErrorResponse ''ID should be min 6 chars'' StatusBadRequest NoData, w)
               else if id' = []
               then (case generateRandomString 32 alphaNumChars (rand w) of
                       (Panic, rs) \<Rightarrow> (Panicked, w\<lparr>rand := rs\<rparr>)
                     | (Ret (i, Some err), rs) \<Rightarrow>
                         (sendErrorResponse ''error generating ID'' StatusInternalServerError
                            NoData,
                          logger_Printf ''error generating ID: %v'' (Some err) (w\<lparr>rand := rs\<rparr>))
                     | (Ret (i, None), rs) \<Rightarrow>
                         handleSetOTP_otp app pro namespace i provider description to otpVal
                           (w\<lparr>rand := rs\<rparr>))
               else handleSetOTP_otp app pro namespace id' provider description to otpVal w))"

subsection \<open>A record store after the specification\<close>

text \<open>
  Modelled from the spec: the implementation of \<^verbatim>\<open>otpgateway.Store\<close> (the Redis store
  the tests start) is not among the sources, so the store below follows section 4.1 of
  the specification. Its state maps a key (namespace, id) to the record kept there.
  \<^item> \<open>spec_Set\<close> is \<^verbatim>\<open>Create\<close>: it "writes a new record with attempts initialized to 1",
    not closed, under the key's namespace and id, and "fails with AlreadyLocked if a
    record already exists under the key and is locked"; otherwise it "silently replaces
    the prior record".
  \<^item> \<open>spec_Check\<close> is \<^verbatim>\<open>Read\<close>: it loads the record and, "if increment is true, atomically
    increments attempts by 1 as part of the same operation and returns the
    post-increment value"; it "fails with NotFound if the key does not exist", which
    the handlers know as \<^verbatim>\<open>ErrNotExist\<close>.
  \<^item> \<open>spec_Close\<close> "sets closed = true on the current record and returns it; fails with
    NotFound under the same conditions as Read".
  No time passes between the operations of a run, so no record expires within one.
\<close>

type_synonym spec_state = "(string \<times> string) \<rightharpoonup> OTP"

definition emptyOTP :: OTP where
  "emptyOTP = \<lparr>Namespace = [], ID = [], To = [], Description = [], Provider = [], OTP = [],
               MaxAttempts = 0, Attempts = 0, Closed = False, TTL = 0, TTLSeconds = 0\<rparr>"

definition spec_Set :: "spec_state \<Rightarrow> string \<Rightarrow> string \<Rightarrow> OTP \<Rightarrow> (OTP \<times> error option) \<times> spec_state" where
  "spec_Set s namespace id' otp =
     (let new = otp\<lparr>Namespace := namespace, ID := id', Attempts := 1, Closed := False\<rparr> in
      case s (namespace, id') of
        None \<Rightarrow> ((new, None), s((namespace, id') \<mapsto> new))
      | Some old \<Rightarrow>
          if isLocked old then ((old, Some (Err ''AlreadyLocked'')), s)
          else ((new, None), s((namespace, id') \<mapsto> new)))"

definition spec_Check :: "spec_state \<Rightarrow> string \<Rightarrow> string \<Rightarrow> bool \<Rightarrow> (OTP \<times> error option) \<times> spec_state" where
  "spec_Check s namespace id' counter =
     (case s (namespace, id') of
        None \<Rightarrow> ((emptyOTP, Some ErrNotExist), s)
      | Some rec \<Rightarrow>
          if counter
          then (let rec' = rec\<lparr>Attempts := Attempts rec + 1\<rparr> in
                ((rec', None), s((namespace, id') \<mapsto> rec')))
          else ((rec, None), s))"

definition spec_Close :: "spec_state \<Rightarrow> string \<Rightarrow> string \<Rightarrow> (OTP \<times> error option) \<times> spec_state" where
  "spec_Close s namespace id' =
     (case s (namespace, id') of
        None \<Rightarrow> ((emptyOTP, Some ErrNotExist), s)
      | Some rec \<Rightarrow>
          (let rec' = rec\<lparr>Closed := True\<rparr> in ((rec', None), s((namespace, id') \<mapsto> rec'))))"

definition spec_store :: "spec_state Store" where
  "spec_store = \<lparr>Check = spec_Check, Set = spec_Set, Close = spec_Close\<rparr>"

subsection \<open>The application of the tests\<close>

text \<open>
  The provider, the template and the application that \<^verbatim>\<open>handlers_test.go\<close> sets up, over
  the store above: a provider that accepts one address and whose \<^verbatim>\<open>Push\<close> succeeds, the
  template \<^verbatim>\<open>test {{ .OTP }}\<close>, a TTL of ten seconds and three attempts.
\<close>

definition dummyNamespace :: string where "dummyNamespace = ''myapp''"
definition dummyProvider :: string where "dummyProvider = ''dummyprovider''"
definition dummyOTPID :: string where "dummyOTPID = ''myotp123''"
definition dummyToAddress :: string where "dummyToAddress = ''dummy@to.com''"
definition dummyOTP :: string where "dummyOTP = ''123456''"

definition dummyProv :: Provider where
  "dummyProv =
     \<lparr>provID = dummyProvider, ChannelName = ''dummychannel'',
      provDescription = ''dummy description'',
      ValidateAddress =
        (\<lambda>to. if to \<noteq> dummyToAddress then Some (Err ''invalid dummy to address'') else None),
      Push = (\<lambda>toAddr subject m. None),
      MaxOTPLen = 6, MaxBodyLen = 100 * 1024\<rparr>"

definition dummyTpl :: providerTpl where
  "dummyTpl = \<lparr>subject = (\<lambda>d. Inr (''test '' @ tplOTP d)), tpl = (\<lambda>d. Inr (''test '' @ tplOTP d))\<rparr>"

definition testApp :: "spec_state App" where
  "testApp =
     \<lparr>providers = [dummyProvider \<mapsto> dummyProv], providerTpls = [dummyProvider \<mapsto> dummyTpl],
      otpTTL = 10 * 1000000000, otpMaxAttempts = 3, RootURL = [], store = spec_store\<rparr>"

definition world0 :: "spec_state \<Rightarrow> byte list \<Rightarrow> spec_state world" where
  "world0 s bs =
     \<lparr>store_state = s, calls = [], rand = \<lparr>tape = bs, failure = Err ''EOF''\<rparr>, logged = [],
      pushed = []\<rparr>"

text \<open>
  The requests of \<^verbatim>\<open>TestCheckOTP\<close>: the registration of \<^verbatim>\<open>myotp123\<close> with the passcode
  \<^verbatim>\<open>123456\<close>, and a check of a given passcode. \<open>storedOTP a\<close> is the record that
  registration leaves in the store, with \<open>a\<close> attempts counted; \<open>storeWith a\<close> is the
  store holding it. \<open>testNotExistText\<close> stands for the text of \<^verbatim>\<open>ErrNotExist\<close>.
\<close>

definition setReq :: request where
  "setReq =
     \<lparr>ctx_namespace = dummyNamespace, url_id = dummyOTPID,
      form = [''id'' \<mapsto> dummyOTPID, ''otp'' \<mapsto> dummyOTP, ''to'' \<mapsto> dummyToAddress,
              ''provider'' \<mapsto> dummyProvider]\<rparr>"

definition checkReq :: "string \<Rightarrow> request" where
  "checkReq otpVal =
     \<lparr>ctx_namespace = dummyNamespace, url_id = dummyOTPID, form = [''otp'' \<mapsto> otpVal]\<rparr>"

definition storedOTP :: "int \<Rightarrow> OTP" where
  "storedOTP a =
     \<lparr>Namespace = dummyNamespace, ID = dummyOTPID, To = dummyToAddress, Description = [],
      Provider = dummyProvider, OTP = dummyOTP, MaxAttempts = 3, Attempts = a, Closed = False,
      TTL = 10 * 1000000000, TTLSeconds = 0\<rparr>"

definition storeWith :: "int \<Rightarrow> spec_state" where
  "storeWith a = [(dummyNamespace, dummyOTPID) \<mapsto> storedOTP a]"

definition testNotExistText :: string where
  "testNotExistText = ''the OTP does not exist''"

text \<open>
  Two stores that lose their connection: one whose \<^verbatim>\<open>Close\<close> fails, one whose
  \<^verbatim>\<open>Check\<close> fails, each leaving the state as it was.
\<close>

definition closeFailsApp :: "spec_state App" where
  "closeFailsApp =
     testApp\<lparr>store := spec_store
       \<lparr>Close := (\<lambda>s namespace id'. ((emptyOTP, Some (Err ''connection refused'')), s))\<rparr>\<rparr>"

definition checkFailsApp :: "spec_state App" where
  "checkFailsApp =
     testApp\<lparr>store := spec_store
       \<lparr>Check := (\<lambda>s namespace id' counter. ((emptyOTP, Some (Err ''connection refused'')), s))\<rparr>\<rparr>"

text \<open>A handler succeeded when it answered with status 200.\<close>

definition succeeded :: "outcome \<Rightarrow> bool" where
  "succeeded x = (case x of Panicked \<Rightarrow> False | Responded code body \<Rightarrow> code = StatusOK)"

text \<open>
  Scenario B and then scenario C, from a store \<open>s\<close> and a random tape \<open>bs\<close>:
  \<open>afterB\<close> is the world the registration leaves, \<open>scenarioC\<close> the check of the wrong
  passcode \<^verbatim>\<open>123\<close> in that world.
\<close>

definition afterB :: "string \<Rightarrow> spec_state \<Rightarrow> byte list \<Rightarrow> spec_state world" where
  "afterB t s bs = snd (handleSetOTP t testApp setReq (world0 s bs))"

definition scenarioC :: "string \<Rightarrow> spec_state \<Rightarrow> byte list \<Rightarrow> outcome \<times> spec_state world" where
  "scenarioC t s bs = handleCheckOTP t testApp (checkReq ''123'') (afterB t s bs)"

subsection \<open>Counting the bytes behind a symbol\<close>

text \<open>
  The bytes a symbol can come from: \<open>preimages chars c\<close> counts, among the 256 values of
  a byte, those that \<open>symbol\<close> sends to \<open>c\<close>.
\<close>

definition all_bytes :: "byte list" where
  "all_bytes = map of_nat [0..<256]"

definition preimages :: "string \<Rightarrow> char \<Rightarrow> nat" where
  "preimages chars c = length (filter (\<lambda>v. symbol chars v = c) all_bytes)"

section \<open>Facts about the model\<close>

lemmas fixture_defs =
  testApp_def spec_store_def dummyProv_def dummyTpl_def dummyNamespace_def dummyProvider_def
  dummyOTPID_def dummyToAddress_def dummyOTP_def world0_def setReq_def checkReq_def
  storedOTP_def storeWith_def closeFailsApp_def checkFailsApp_def emptyOTP_def
  testNotExistText_def

lemmas handler_defs =
  handleSetOTP_def handleSetOTP_otp_def handleSetOTP_store_def handleCheckOTP_def checkOTP_def
  store_Check_def store_Set_def store_Close_def spec_Check_def spec_Set_def spec_Close_def
  push_def getURL_def FormValue_def logger_Printf_def isLocked_def Let_def
  sendResponse_def sendErrorResponse_def StatusOK_def StatusBadRequest_def
  StatusInternalServerError_def

subsection \<open>Responses that are no success\<close>

lemma succeeded_simps [simp]:
  "succeeded (sendErrorResponse m StatusBadRequest d) = False"
  "succeeded (sendErrorResponse m StatusInternalServerError d) = False"
  "succeeded Panicked = False"
  "succeeded (sendResponse d) = True"
  by (simp_all add: succeeded_def sendErrorResponse_def sendResponse_def StatusBadRequest_def
      StatusOK_def StatusInternalServerError_def)

subsection \<open>The four ways through \<open>checkOTP\<close>\<close>

lemma checkOTP_read_failed:
  assumes "Check (store app) (store_state w) namespace id' True = ((rec, Some e), s1)"
  shows "fst (checkOTP namespace id' otp app w) = (rec, Some e)"
    and "calls (snd (checkOTP namespace id' otp app w)) = calls w @ [CallCheck namespace id' True]"
    and "store_state (snd (checkOTP namespace id' otp app w)) = s1"
  using assms by (simp_all add: checkOTP_def store_Check_def logger_Printf_def)

lemma checkOTP_locked:
  assumes "Check (store app) (store_state w) namespace id' True = ((rec, None), s1)"
    and "isLocked rec"
  shows "checkOTP namespace id' otp app w =
     ((rec, Some (Err (''Too many attempts. Please retry after '' @ fmtSeconds (TTL rec)
                        @ '' seconds.''))),
      w\<lparr>store_state := s1, calls := calls w @ [CallCheck namespace id' True]\<rparr>)"
  using assms by (simp add: checkOTP_def store_Check_def)

lemma checkOTP_mismatch:
  assumes "Check (store app) (store_state w) namespace id' True = ((rec, None), s1)"
    and "\<not> isLocked rec" and "OTP rec \<noteq> otp"
  shows "checkOTP namespace id' otp app w =
     ((rec, Some (Err ''OTP does not match'')),
      w\<lparr>store_state := s1, calls := calls w @ [CallCheck namespace id' True]\<rparr>)"
  using assms by (simp add: checkOTP_def store_Check_def)

lemma checkOTP_match:
  assumes "Check (store app) (store_state w) namespace id' True = ((rec, None), s1)"
    and "\<not> isLocked rec" and "OTP rec = otp"
  shows "checkOTP namespace id' otp app w =
     ((rec\<lparr>Closed := True\<rparr>, None),
      w\<lparr>store_state := snd (Close (store app) s1 namespace id'),
        calls := calls w @ [CallCheck namespace id' True, CallClose namespace id']\<rparr>)"
  using assms by (simp add: checkOTP_def store_Check_def store_Close_def split: prod.splits)

subsection \<open>The handlers on a locked record\<close>

lemma handleCheckOTP_failed:
  assumes "Check (store app) (store_state w) (ctx_namespace r) (url_id r) True = ((rec, None), s1)"
    and "isLocked rec \<or> OTP rec \<noteq> FormValue r ''otp''"
    and "6 \<le> length (url_id r)"
    and "FormValue r ''otp'' \<noteq> []"
  shows "handleCheckOTP t app r w =
     (sendErrorResponse
        (if isLocked rec
         then ''Too many attempts. Please retry after '' @ fmtSeconds (TTL rec) @ '' seconds.''
         else ''OTP does not match'')
        StatusBadRequest (DataOTP rec),
      w\<lparr>store_state := s1, calls := calls w @ [CallCheck (ctx_namespace r) (url_id r) True]\<rparr>)"
  using assms
  by (auto simp: handleCheckOTP_def Let_def checkOTP_def store_Check_def)

lemma handleCheckOTP_locked_fails:
  assumes "Check (store app) (store_state w) (ctx_namespace r) (url_id r) True = ((rec, None), s1)"
    and "isLocked rec"
  shows "\<not> succeeded (fst (handleCheckOTP t app r w))"
  using assms
  by (auto simp: handleCheckOTP_def Let_def checkOTP_def store_Check_def)

lemma handleSetOTP_store_locked:
  assumes "Check (store app) (store_state w) namespace id' False = ((rec, None), s1)"
    and "isLocked rec"
  shows "handleSetOTP_store app pro namespace id' provider description to otpVal w =
     (sendErrorResponse
        (''OTP attempts exceeded. Retry after '' @ fmtSeconds (TTL rec) @ '' seconds.'')
        StatusBadRequest
        (DataErrResp \<lparr>errTTL = Seconds (TTL rec), errAttempts = Attempts rec,
                      errMaxAttempts = otpMaxAttempts app\<rparr>),
      w\<lparr>store_state := s1, calls := calls w @ [CallCheck namespace id' False]\<rparr>)"
  using assms by (simp add: handleSetOTP_store_def store_Check_def)

lemma handleSetOTP_otp_locked:
  assumes "Check (store app) (store_state w) namespace id' False = ((rec, None), s1)"
    and "isLocked rec"
  shows "\<not> succeeded (fst (handleSetOTP_otp app pro namespace id' provider description to otpVal w))
    \<and> (calls (snd (handleSetOTP_otp app pro namespace id' provider description to otpVal w))
          = calls w
       \<or> calls (snd (handleSetOTP_otp app pro namespace id' provider description to otpVal w))
          = calls w @ [CallCheck namespace id' False])"
proof (cases "otpVal = []")
  case False
  then show ?thesis
    using handleSetOTP_store_locked[OF assms] by (simp add: handleSetOTP_otp_def)
next
  case True
  obtain g rs where g: "generateRandomString (MaxOTPLen pro) numChars (rand w) = (g, rs)"
    by (cases "generateRandomString (MaxOTPLen pro) numChars (rand w)")
  have st: "Check (store app) (store_state (w\<lparr>rand := rs\<rparr>)) namespace id' False
      = ((rec, None), s1)"
    using assms(1) by simp
  show ?thesis
    using True g handleSetOTP_store_locked[OF st assms(2)]
    by (cases g) (auto simp: handleSetOTP_otp_def logger_Printf_def split: option.splits)
qed

lemma handleSetOTP_locked:
  assumes "Check (store app) (store_state w) (ctx_namespace r) (url_id r) False = ((rec, None), s1)"
    and "isLocked rec"
  shows "\<not> succeeded (fst (handleSetOTP t app r w))
    \<and> (calls (snd (handleSetOTP t app r w)) = calls w
       \<or> calls (snd (handleSetOTP t app r w))
          = calls w @ [CallCheck (ctx_namespace r) (url_id r) False])"
  using handleSetOTP_otp_locked[OF assms]
  by (auto simp: handleSetOTP_def Let_def split: option.splits)

subsection \<open>\<open>checkOTP\<close> over any store\<close>

text \<open>
  Whatever the store, with \<open>rec\<close> and \<open>err\<close> what its incrementing read returns:
  \<^verbatim>\<open>checkOTP\<close> calls \<^verbatim>\<open>Close\<close> exactly when the read succeeded, \<open>rec\<close> is not locked and
  its passcode is the one supplied, and then returns \<open>rec\<close> with \<open>Closed\<close> set and no
  error, whatever \<^verbatim>\<open>Close\<close> returned; otherwise it returns \<open>rec\<close> as read, with an
  error, and leaves the store as the read left it.
\<close>

lemma checkOTP_any_store:
  assumes "Check (store app) (store_state w) namespace id' True = ((rec, err), s1)"
    and "checkOTP namespace id' otp app w = ((out, err'), w')"
  shows "calls w' = calls w @ CallCheck namespace id' True #
            (if err = None \<and> \<not> isLocked rec \<and> OTP rec = otp
             then [CallClose namespace id'] else [])
       \<and> (err' = None) = (err = None \<and> \<not> isLocked rec \<and> OTP rec = otp)
       \<and> out = (if err = None \<and> \<not> isLocked rec \<and> OTP rec = otp
                 then rec\<lparr>Closed := True\<rparr> else rec)
       \<and> Closed out = (Closed rec \<or> (err = None \<and> \<not> isLocked rec \<and> OTP rec = otp))
       \<and> store_state w' = (if err = None \<and> \<not> isLocked rec \<and> OTP rec = otp
                            then snd (Close (store app) s1 namespace id') else s1)"
proof (cases err)
  case (Some e)
  with assms checkOTP_read_failed[of app w namespace id' rec e s1 otp] show ?thesis
    by auto
next
  case None
  show ?thesis
  proof (cases "isLocked rec")
    case True
    with None assms checkOTP_locked[of app w namespace id' rec s1 otp] show ?thesis
      by auto
  next
    case False
    show ?thesis
    proof (cases "OTP rec = otp")
      case True
      with None False assms checkOTP_match[of app w namespace id' rec s1 otp] show ?thesis
        by auto
    next
      case ne: False
      with None False assms checkOTP_mismatch[of app w namespace id' rec s1 otp] show ?thesis
        by auto
    qed
  qed
qed

subsection \<open>The generator when the source delivers\<close>

lemma byte_of_length_nonzero:
  assumes "0 < n" and "n < 256"
  shows "(of_nat n :: byte) \<noteq> 0"
proof
  assume "(of_nat n :: byte) = 0"
  then have "unat (of_nat n :: byte) = 0" by simp
  then show False using assms by (simp add: unat_of_nat)
qed

lemma generateRandomString_delivers:
  assumes "0 \<le> n" and "nat n \<le> length (tape rs)" and "0 < length chars"
    and "length chars < 256"
  shows "generateRandomString n chars rs =
     (Ret (map (symbol chars) (take (nat n) (tape rs)), None),
      rs\<lparr>tape := drop (nat n) (tape rs)\<rparr>)"
  using assms byte_of_length_nonzero[OF assms(3,4)]
  by (simp add: generateRandomString_def rand_Read_def)

lemma symbol_in_alphabet:
  assumes "0 < length chars" and "length chars < 256"
  shows "symbol chars v \<in> set chars"
proof -
  have u: "unat (of_nat (length chars) :: byte) = length chars"
    using assms(2) by (simp add: unat_of_nat)
  have "unat (v mod (of_nat (length chars) :: byte)) = unat v mod length chars"
    by (simp add: unat_mod u)
  also have "\<dots> < length chars" using assms(1) by simp
  finally show ?thesis by (simp add: symbol_def)
qed

subsection \<open>How many bytes a symbol comes from\<close>

lemma count_mod:
  "i < L \<Longrightarrow>
   length (filter (\<lambda>n. n mod L = i) [0..<N]) = N div L + (if i < N mod L then 1 else 0)"
proof (induction N)
  case 0
  then show ?case by simp
next
  case (Suc N)
  then show ?case
    by (auto simp: mod_Suc div_Suc)
qed

lemma symbol_of_nat:
  assumes "n < 256" and "length chars < 256"
  shows "symbol chars (of_nat n) = chars ! (n mod length chars)"
proof -
  have "unat ((of_nat n :: byte) mod of_nat (length chars)) = n mod length chars"
    using assms by (simp add: unat_mod unat_of_nat)
  then show ?thesis by (simp add: symbol_def)
qed

lemma preimages_count:
  assumes "distinct chars" and "0 < length chars" and "length chars < 256"
    and "i < length chars"
  shows "preimages chars (chars ! i)
     = 256 div length chars + (if i < 256 mod length chars then 1 else 0)"
proof -
  have eq: "(symbol chars (of_nat n) = chars ! i) = (n mod length chars = i)"
    if "n < 256" for n
  proof -
    have m: "n mod length chars < length chars" using assms(2) by simp
    show ?thesis
      using symbol_of_nat[OF that assms(3)] m assms(1,4) by (simp add: nth_eq_iff_index_eq)
  qed
  have "filter (\<lambda>n. symbol chars (of_nat n) = chars ! i) [0..<k]
      = filter (\<lambda>n. n mod length chars = i) [0..<k]" if "k \<le> 256" for k
    by (rule filter_cong[OF refl]) (use that eq in auto)
  then have f: "filter (\<lambda>n. symbol chars (of_nat n) = chars ! i) [0..<256]
      = filter (\<lambda>n. n mod length chars = i) [0..<256]"
    by blast
  have "preimages chars (chars ! i)
      = length (filter ((\<lambda>v. symbol chars v = chars ! i) \<circ> of_nat) [0..<256])"
    unfolding preimages_def all_bytes_def filter_map length_map ..
  also have "\<dots> = length (filter (\<lambda>n. symbol chars (of_nat n) = chars ! i) [0..<256])"
    unfolding comp_def ..
  also have "\<dots> = length (filter (\<lambda>n. n mod length chars = i) [0..<256])"
    unfolding f ..
  also have "\<dots> = 256 div length chars + (if i < 256 mod length chars then 1 else 0)"
    by (rule count_mod[OF assms(4)])
  finally show ?thesis .
qed

lemma length_numChars: "length numChars = 10"
  by (simp add: numChars_def)

lemma length_alphaNumChars: "length alphaNumChars = 62"
  by (simp add: alphaNumChars_def alphaChars_def numChars_def)

lemma distinct_numChars: "distinct numChars"
  by (simp add: numChars_def)

lemma distinct_alphaNumChars: "distinct alphaNumChars"
  by (simp add: alphaNumChars_def alphaChars_def numChars_def)

lemma used_alphabet:
  assumes "chars = numChars \<or> chars = alphaNumChars"
  shows "distinct chars" and "0 < length chars" and "length chars < 256"
proof -
  from assms have l: "length chars = 10 \<or> length chars = 62"
    using length_numChars length_alphaNumChars by auto
  from assms show "distinct chars"
    using distinct_numChars distinct_alphaNumChars by auto
  from l show "0 < length chars" by linarith
  from l show "length chars < 256" by linarith
qed

section \<open>The claims\<close>

subsection \<open>C1: closure exactly on a matching, unlocked verification\<close>

text \<open>
  C1. Over the store of the specification, take any Verify, that is any run of
  \<^verbatim>\<open>checkOTP\<close>, and the record \<open>old\<close> kept under its key. Call the verification good when
  the passcode supplied is the passcode of \<open>old\<close> and \<open>old\<close>, with this attempt counted,
  is not locked. Then \<^verbatim>\<open>Close\<close> is called exactly when the verification is good, right
  after the read, and no other store method is called; the error returned is none
  exactly then, and is "Too many attempts" for a locked record and "OTP does not match"
  for another passcode; the record returned and the record kept in the store afterwards
  are the same, \<open>old\<close> with the attempt counted and with the closed flag \<open>Closed old\<close> or
  good: the flag of the record in the store is set exactly by a good verification and is
  never taken back. When no record is kept under the key, the error is \<^verbatim>\<open>ErrNotExist\<close>,
  the store is unchanged and \<^verbatim>\<open>Close\<close> is not called.
\<close>

theorem verify_closes_iff_match_unlocked:
  assumes "store app = spec_store"
    and "checkOTP namespace id' otp app w = ((out, err'), w')"
  shows "case store_state w (namespace, id') of
      None \<Rightarrow>
        err' = Some ErrNotExist \<and> store_state w' = store_state w
        \<and> calls w' = calls w @ [CallCheck namespace id' True]
    | Some old \<Rightarrow>
        (let counted = old\<lparr>Attempts := Attempts old + 1\<rparr>;
             good = (OTP old = otp \<and> \<not> isLocked counted) in
         calls w' = calls w @ CallCheck namespace id' True #
                      (if good then [CallClose namespace id'] else [])
         \<and> err' = (if good then None
                    else if isLocked counted
                    then Some (Err (''Too many attempts. Please retry after ''
                                     @ fmtSeconds (TTL old) @ '' seconds.''))
                    else Some (Err ''OTP does not match''))
         \<and> out = counted\<lparr>Closed := Closed old \<or> good\<rparr>
         \<and> store_state w' = (store_state w)((namespace, id') \<mapsto> out))"
proof (cases "store_state w (namespace, id')")
  case None
  then have rd: "Check (store app) (store_state w) namespace id' True
      = ((emptyOTP, Some ErrNotExist), store_state w)"
    using assms(1) by (simp add: spec_store_def spec_Check_def)
  show ?thesis
    using None assms(2) checkOTP_read_failed[OF rd, of otp] by simp
next
  case (Some old)
  let ?c = "old\<lparr>Attempts := Attempts old + 1\<rparr>"
  have rd: "Check (store app) (store_state w) namespace id' True
      = ((?c, None), (store_state w)((namespace, id') \<mapsto> ?c))"
    using Some assms(1) by (simp add: spec_store_def spec_Check_def Let_def)
  have cl: "snd (Close (store app) ((store_state w)((namespace, id') \<mapsto> ?c)) namespace id')
      = (store_state w)((namespace, id') \<mapsto> ?c\<lparr>Closed := True\<rparr>)"
    using assms(1) by (simp add: spec_store_def spec_Close_def Let_def)
  show ?thesis
  proof (cases "isLocked ?c")
    case True
    with Some assms(2) checkOTP_locked[OF rd True, of otp] show ?thesis
      by (auto simp: Let_def)
  next
    case False
    show ?thesis
    proof (cases "OTP old = otp")
      case True
      then have m: "OTP ?c = otp" by simp
      show ?thesis
        using Some assms(2) False True checkOTP_match[OF rd False m] cl
        by (auto simp: Let_def)
    next
      case ne: False
      then have m: "OTP ?c \<noteq> otp" by simp
      show ?thesis
        using Some assms(2) False ne checkOTP_mismatch[OF rd False m]
        by (auto simp: Let_def)
    qed
  qed
qed

text \<open>
  The theorem at the test's record with one attempt counted and the right passcode: the
  read counts the second attempt, \<^verbatim>\<open>Close\<close> follows, and the record is closed in the
  answer and in the store.
\<close>

theorem verify_closes_iff_match_unlocked_witness:
  "store testApp = spec_store
   \<and> checkOTP dummyNamespace dummyOTPID dummyOTP testApp (world0 (storeWith 1) [])
     = (((storedOTP 2)\<lparr>Closed := True\<rparr>, None),
        (world0 [(dummyNamespace, dummyOTPID) \<mapsto> (storedOTP 2)\<lparr>Closed := True\<rparr>] [])
          \<lparr>calls := [CallCheck dummyNamespace dummyOTPID True,
                      CallClose dummyNamespace dummyOTPID]\<rparr>)
   \<and> store_state (world0 (storeWith 1) []) (dummyNamespace, dummyOTPID) = Some (storedOTP 1)
   \<and> OTP (storedOTP 1) = dummyOTP
   \<and> \<not> isLocked ((storedOTP 1)\<lparr>Attempts := Attempts (storedOTP 1) + 1\<rparr>)
   \<and> store_state
        ((world0 [(dummyNamespace, dummyOTPID) \<mapsto> (storedOTP 2)\<lparr>Closed := True\<rparr>] [])
          \<lparr>calls := [CallCheck dummyNamespace dummyOTPID True,
                      CallClose dummyNamespace dummyOTPID]\<rparr>)
       = (store_state (world0 (storeWith 1) []))
           ((dummyNamespace, dummyOTPID) \<mapsto> (storedOTP 2)\<lparr>Closed := True\<rparr>)"
proof -
  have h1: "store testApp = spec_store"
    by (simp add: testApp_def)
  have h2: "checkOTP dummyNamespace dummyOTPID dummyOTP testApp (world0 (storeWith 1) [])
     = (((storedOTP 2)\<lparr>Closed := True\<rparr>, None),
        (world0 [(dummyNamespace, dummyOTPID) \<mapsto> (storedOTP 2)\<lparr>Closed := True\<rparr>] [])
          \<lparr>calls := [CallCheck dummyNamespace dummyOTPID True,
                      CallClose dummyNamespace dummyOTPID]\<rparr>)"
    by (simp add: fixture_defs handler_defs)
  have k: "store_state (world0 (storeWith 1) []) (dummyNamespace, dummyOTPID)
      = Some (storedOTP 1)"
    by (simp add: world0_def storeWith_def)
  have good: "OTP (storedOTP 1) = dummyOTP"
    "\<not> isLocked ((storedOTP 1)\<lparr>Attempts := Attempts (storedOTP 1) + 1\<rparr>)"
    by (simp_all add: storedOTP_def isLocked_def)
  have e: "(storedOTP 1)\<lparr>Attempts := Attempts (storedOTP 1) + 1\<rparr> = storedOTP 2"
    by (simp add: storedOTP_def)
  show ?thesis
    using verify_closes_iff_match_unlocked[OF h1 h2] h1 h2 k good e
    by (simp add: Let_def world0_def storeWith_def)
qed

subsection \<open>C2: the lockout test, and a locked record under Verify and Issue\<close>

text \<open>
  C2. \<open>isLocked\<close> holds of a record exactly when its attempts exceed its maximum. And
  when the store's reads of a key report a locked record (the read that counts, for a
  Verify request \<open>r\<close>; the read that does not, for an Issue request \<open>r'\<close>), then
  \<^verbatim>\<open>checkOTP\<close> returns an error whatever passcode is supplied and calls nothing after its
  read, the Verify handler does not answer 200, and the Issue handler does not answer
  200 and never calls \<^verbatim>\<open>Set\<close>: the store methods it has called are none, or the one read.
\<close>

theorem locked_blocks_verify_and_issue:
  assumes "Check (store app) (store_state w) (ctx_namespace r) (url_id r) True
             = ((rec, None), s1)"
    and "isLocked rec"
    and "Check (store app) (store_state w) (ctx_namespace r') (url_id r') False
             = ((rec0, None), s0)"
    and "isLocked rec0"
  shows "isLocked x = (MaxAttempts x < Attempts x)
       \<and> snd (fst (checkOTP (ctx_namespace r) (url_id r) otp app w)) \<noteq> None
       \<and> calls (snd (checkOTP (ctx_namespace r) (url_id r) otp app w))
           = calls w @ [CallCheck (ctx_namespace r) (url_id r) True]
       \<and> \<not> succeeded (fst (handleCheckOTP t app r w))
       \<and> \<not> succeeded (fst (handleSetOTP t app r' w))
       \<and> (calls (snd (handleSetOTP t app r' w)) = calls w
          \<or> calls (snd (handleSetOTP t app r' w))
              = calls w @ [CallCheck (ctx_namespace r') (url_id r') False])"
proof -
  have "isLocked x = (MaxAttempts x < Attempts x)"
    by (simp add: isLocked_def)
  moreover have "snd (fst (checkOTP (ctx_namespace r) (url_id r) otp app w)) \<noteq> None"
    and "calls (snd (checkOTP (ctx_namespace r) (url_id r) otp app w))
           = calls w @ [CallCheck (ctx_namespace r) (url_id r) True]"
    using checkOTP_locked[OF assms(1,2), of otp] by simp_all
  moreover have "\<not> succeeded (fst (handleCheckOTP t app r w))"
    by (rule handleCheckOTP_locked_fails[OF assms(1,2)])
  moreover note handleSetOTP_locked[OF assms(3,4), of t]
  ultimately show ?thesis by blast
qed

text \<open>
  The theorem at the test's record once four attempts are counted against its maximum
  of three: the right passcode is refused, and a new registration of the key is
  refused before \<^verbatim>\<open>Set\<close>.
\<close>

theorem locked_blocks_verify_and_issue_witness:
  "Check (store testApp) (store_state (world0 (storeWith 4) []))
       (ctx_namespace (checkReq dummyOTP)) (url_id (checkReq dummyOTP)) True
     = ((storedOTP 5, None), storeWith 5)
   \<and> isLocked (storedOTP 5)
   \<and> Check (store testApp) (store_state (world0 (storeWith 4) []))
       (ctx_namespace setReq) (url_id setReq) False
     = ((storedOTP 4, None), storeWith 4)
   \<and> isLocked (storedOTP 4)
   \<and> snd (fst (checkOTP (ctx_namespace (checkReq dummyOTP)) (url_id (checkReq dummyOTP))
                 dummyOTP testApp (world0 (storeWith 4) []))) \<noteq> None
   \<and> \<not> succeeded (fst (handleCheckOTP testNotExistText testApp (checkReq dummyOTP)
                          (world0 (storeWith 4) [])))
   \<and> \<not> succeeded (fst (handleSetOTP testNotExistText testApp setReq
                          (world0 (storeWith 4) [])))
   \<and> calls (snd (handleSetOTP testNotExistText testApp setReq (world0 (storeWith 4) [])))
     = [CallCheck dummyNamespace dummyOTPID False]"
proof -
  have h1: "Check (store testApp) (store_state (world0 (storeWith 4) []))
       (ctx_namespace (checkReq dummyOTP)) (url_id (checkReq dummyOTP)) True
     = ((storedOTP 5, None), storeWith 5)"
    by (simp add: fixture_defs handler_defs)
  have h2: "isLocked (storedOTP 5)"
    by (simp add: fixture_defs isLocked_def)
  have h3: "Check (store testApp) (store_state (world0 (storeWith 4) []))
       (ctx_namespace setReq) (url_id setReq) False
     = ((storedOTP 4, None), storeWith 4)"
    by (simp add: fixture_defs handler_defs)
  have h4: "isLocked (storedOTP 4)"
    by (simp add: fixture_defs isLocked_def)
  have c: "calls (snd (handleSetOTP testNotExistText testApp setReq (world0 (storeWith 4) [])))
     = [CallCheck dummyNamespace dummyOTPID False]"
    by (simp add: fixture_defs handler_defs)
  show ?thesis
    using locked_blocks_verify_and_issue[OF h1 h2 h3 h4, of _ dummyOTP testNotExistText]
      h1 h2 h3 h4 c
    by simp
qed

subsection \<open>C3: a Verify against a locked record\<close>

text \<open>
  The claim fails where it says that the failed check leaves the attempts as they were.
  In the store of the specification, the test's record with four attempts counted is
  locked; a Verify against it fails, and the record then counts five.
\<close>

theorem verify_locked_counts_the_attempt:
  "map_option Attempts (storeWith 4 (dummyNamespace, dummyOTPID)) = Some 4
   \<and> isLocked (storedOTP 4)
   \<and> snd (fst (checkOTP dummyNamespace dummyOTPID dummyOTP testApp (world0 (storeWith 4) [])))
     = Some (Err ''Too many attempts. Please retry after 10 seconds.'')
   \<and> map_option Attempts
       (store_state (snd (checkOTP dummyNamespace dummyOTPID dummyOTP testApp
                            (world0 (storeWith 4) [])))
          (dummyNamespace, dummyOTPID)) = Some 5"
  by (simp add: fixture_defs handler_defs fmtSeconds_def round_half_even_def)

text \<open>
  C3, amended. Over the store of the specification, a Verify against a key whose record
  \<open>old\<close> is locked fails with the error "Too many attempts", whose text gives the
  remaining TTL in seconds, and returns the record with its attempt counts; the check
  is counted: the record returned and the record kept are \<open>old\<close> with one more
  attempt. Nothing else changes: the store differs at that key only, and the read is
  the only store method called.
\<close>

theorem verify_locked_only_counts:
  assumes "store app = spec_store"
    and "store_state w (namespace, id') = Some old"
    and "isLocked old"
  shows "checkOTP namespace id' otp app w =
     ((old\<lparr>Attempts := Attempts old + 1\<rparr>,
       Some (Err (''Too many attempts. Please retry after '' @ fmtSeconds (TTL old)
                   @ '' seconds.''))),
      w\<lparr>store_state := (store_state w)((namespace, id') \<mapsto> old\<lparr>Attempts := Attempts old + 1\<rparr>),
        calls := calls w @ [CallCheck namespace id' True]\<rparr>)"
proof -
  have rd: "Check (store app) (store_state w) namespace id' True
      = ((old\<lparr>Attempts := Attempts old + 1\<rparr>, None),
         (store_state w)((namespace, id') \<mapsto> old\<lparr>Attempts := Attempts old + 1\<rparr>))"
    using assms(1,2) by (simp add: spec_store_def spec_Check_def Let_def)
  have lk: "isLocked (old\<lparr>Attempts := Attempts old + 1\<rparr>)"
    using assms(3) by (simp add: isLocked_def split: if_splits)
  show ?thesis
    using checkOTP_locked[OF rd lk, of otp] by simp
qed

theorem verify_locked_only_counts_witness:
  "store testApp = spec_store
   \<and> store_state (world0 (storeWith 4) []) (dummyNamespace, dummyOTPID) = Some (storedOTP 4)
   \<and> isLocked (storedOTP 4)
   \<and> checkOTP dummyNamespace dummyOTPID dummyOTP testApp (world0 (storeWith 4) []) =
     ((storedOTP 5, Some (Err ''Too many attempts. Please retry after 10 seconds.'')),
      (world0 (storeWith 5) [])\<lparr>calls := [CallCheck dummyNamespace dummyOTPID True]\<rparr>)"
proof -
  have h1: "store testApp = spec_store"
    by (simp add: testApp_def)
  have h2: "store_state (world0 (storeWith 4) []) (dummyNamespace, dummyOTPID)
      = Some (storedOTP 4)"
    by (simp add: world0_def storeWith_def)
  have h3: "isLocked (storedOTP 4)"
    by (simp add: storedOTP_def isLocked_def)
  have e: "(storedOTP 4)\<lparr>Attempts := Attempts (storedOTP 4) + 1\<rparr> = storedOTP 5"
    "fmtSeconds (TTL (storedOTP 4)) = ''10''"
    by (simp_all add: storedOTP_def fmtSeconds_def round_half_even_def)
  show ?thesis
    using verify_locked_only_counts[OF h1 h2 h3, of dummyOTP] h1 h2 h3 e
    by (simp add: world0_def storeWith_def)
qed

subsection \<open>C4: scenario B, then scenario C\<close>

lemma handleSetOTP_setReq:
  assumes "s (dummyNamespace, dummyOTPID) = None
     \<or> (\<exists>old. s (dummyNamespace, dummyOTPID) = Some old \<and> \<not> isLocked old)"
  shows "handleSetOTP t testApp setReq (world0 s bs) =
     (sendResponse (DataOTPResp \<lparr>otp_embedded = storedOTP 1, URL = ''/otp/myapp/myotp123''\<rparr>),
      (world0 (s((dummyNamespace, dummyOTPID) \<mapsto> storedOTP 1)) bs)
        \<lparr>calls := [CallCheck dummyNamespace dummyOTPID False,
            CallSet dummyNamespace dummyOTPID ((storedOTP 0)\<lparr>Namespace := [], ID := []\<rparr>)],
         pushed := [(dummyToAddress, ''test 123456'', ''test 123456'')]\<rparr>)"
  using assms by (auto simp add: fixture_defs handler_defs)

text \<open>
  The claim fails at the count. From the empty store, as \<^verbatim>\<open>TestCheckOTP\<close> starts, the
  registration and one check of the wrong passcode leave the record with two attempts,
  not three.
\<close>

theorem scenario_C_attempts_not_three:
  "map_option Attempts
     (store_state (snd (scenarioC testNotExistText Map.empty [])) (dummyNamespace, dummyOTPID))
     = Some 2
   \<and> map_option Attempts
     (store_state (snd (scenarioC testNotExistText Map.empty [])) (dummyNamespace, dummyOTPID))
     \<noteq> Some 3"
  by (simp add: scenarioC_def afterB_def fixture_defs handler_defs)

text \<open>
  C4, amended. From every store in which the key \<^verbatim>\<open>myotp123\<close> is absent or not locked,
  the registration of scenario B succeeds and returns the record with one attempt; the
  check of the wrong passcode \<^verbatim>\<open>123\<close> that follows is answered 400 with "OTP does not
  match"; the record then has two attempts (one of the registration, one of this
  check) and is not locked.
\<close>

theorem scenario_C_attempts_two:
  assumes "s (dummyNamespace, dummyOTPID) = None
     \<or> (\<exists>old. s (dummyNamespace, dummyOTPID) = Some old \<and> \<not> isLocked old)"
  shows "fst (handleSetOTP t testApp setReq (world0 s bs))
       = sendResponse (DataOTPResp \<lparr>otp_embedded = storedOTP 1, URL = ''/otp/myapp/myotp123''\<rparr>)
     \<and> fst (scenarioC t s bs)
       = sendErrorResponse ''OTP does not match'' StatusBadRequest (DataOTP (storedOTP 2))
     \<and> store_state (snd (scenarioC t s bs)) (dummyNamespace, dummyOTPID) = Some (storedOTP 2)
     \<and> Attempts (storedOTP 2) = 2
     \<and> \<not> isLocked (storedOTP 2)"
proof -
  have b: "handleSetOTP t testApp setReq (world0 s bs) =
     (sendResponse (DataOTPResp \<lparr>otp_embedded = storedOTP 1, URL = ''/otp/myapp/myotp123''\<rparr>),
      (world0 (s((dummyNamespace, dummyOTPID) \<mapsto> storedOTP 1)) bs)
        \<lparr>calls := [CallCheck dummyNamespace dummyOTPID False,
            CallSet dummyNamespace dummyOTPID ((storedOTP 0)\<lparr>Namespace := [], ID := []\<rparr>)],
         pushed := [(dummyToAddress, ''test 123456'', ''test 123456'')]\<rparr>)"
    using assms by (rule handleSetOTP_setReq)
  have w: "afterB t s bs = (world0 (s((dummyNamespace, dummyOTPID) \<mapsto> storedOTP 1)) bs)
        \<lparr>calls := [CallCheck dummyNamespace dummyOTPID False,
            CallSet dummyNamespace dummyOTPID ((storedOTP 0)\<lparr>Namespace := [], ID := []\<rparr>)],
         pushed := [(dummyToAddress, ''test 123456'', ''test 123456'')]\<rparr>"
    by (simp add: afterB_def b)
  have c: "scenarioC t s bs =
     (sendErrorResponse ''OTP does not match'' StatusBadRequest (DataOTP (storedOTP 2)),
      (afterB t s bs)\<lparr>store_state := s((dummyNamespace, dummyOTPID) \<mapsto> storedOTP 2),
         calls := calls (afterB t s bs) @ [CallCheck dummyNamespace dummyOTPID True]\<rparr>)"
    unfolding scenarioC_def w
    by (simp add: fixture_defs handler_defs)
  show ?thesis
    using b c by (simp add: storedOTP_def isLocked_def)
qed

theorem scenario_C_attempts_two_witness:
  "(Map.empty :: spec_state) (dummyNamespace, dummyOTPID) = None
   \<and> fst (scenarioC testNotExistText Map.empty [])
       = sendErrorResponse ''OTP does not match'' StatusBadRequest (DataOTP (storedOTP 2))
   \<and> store_state (snd (scenarioC testNotExistText Map.empty [])) (dummyNamespace, dummyOTPID)
       = Some (storedOTP 2)
   \<and> Attempts (storedOTP 2) = 2"
proof -
  have h: "(Map.empty :: spec_state) (dummyNamespace, dummyOTPID) = None
     \<or> (\<exists>old. (Map.empty :: spec_state) (dummyNamespace, dummyOTPID) = Some old
              \<and> \<not> isLocked old)"
    by simp
  show ?thesis
    using scenario_C_attempts_two[where s = "Map.empty" and t = testNotExistText and bs = "[]"] h
    by simp
qed

subsection \<open>C5: the id of an Issue request\<close>

text \<open>
  C5. The handler tests \<^verbatim>\<open>len(id) < 6\<close> before \<^verbatim>\<open>id == ""\<close>, so the branch that would
  generate an id is never taken. An Issue request of the test's provider and address
  with an empty id is answered 400 "ID should be min 6 chars", whatever the random
  source holds; nothing is read from the source and no store method is called.
\<close>

theorem empty_id_is_rejected:
  "handleSetOTP testNotExistText testApp (setReq\<lparr>url_id := []\<rparr>) (world0 Map.empty bs)
   = (sendErrorResponse ''ID should be min 6 chars'' StatusBadRequest NoData,
      world0 Map.empty bs)"
  by (simp add: fixture_defs handler_defs)

subsection \<open>C6: an error of \<^verbatim>\<open>Close\<close>\<close>

text \<open>
  C6. \<^verbatim>\<open>checkOTP\<close> calls \<^verbatim>\<open>app.store.Close\<close> as a statement and reads nothing of what it
  returns. Over a store whose \<^verbatim>\<open>Close\<close> fails with "connection refused", a Verify of
  the right passcode is answered 200 with \<^verbatim>\<open>true\<close>, and the record in the store is not
  closed.
\<close>

theorem close_error_is_dropped:
  "fst (Close (store closeFailsApp) (storeWith 2) dummyNamespace dummyOTPID)
     = (emptyOTP, Some (Err ''connection refused''))
   \<and> handleCheckOTP testNotExistText closeFailsApp (checkReq dummyOTP) (world0 (storeWith 1) [])
     = (sendResponse (DataBool True),
        (world0 (storeWith 2) [])
          \<lparr>calls := [CallCheck dummyNamespace dummyOTPID True,
                      CallClose dummyNamespace dummyOTPID]\<rparr>)"
  by (simp add: fixture_defs handler_defs)

subsection \<open>C8: a store failure in the read before \<^verbatim>\<open>Set\<close>\<close>

text \<open>
  C8. Over a store whose \<^verbatim>\<open>Check\<close> fails with "connection refused", which is not
  \<^verbatim>\<open>ErrNotExist\<close>, the Issue handler logs the error and answers "error checking OTP
  status" with \<^verbatim>\<open>http.StatusBadRequest\<close>, 400, where a failure of \<^verbatim>\<open>Set\<close> is answered
  500.
\<close>

theorem check_error_answers_400:
  "fst (Check (store checkFailsApp) Map.empty dummyNamespace dummyOTPID False)
     = (emptyOTP, Some (Err ''connection refused''))
   \<and> handleSetOTP testNotExistText checkFailsApp setReq (world0 Map.empty bs)
     = (sendErrorResponse ''error checking OTP status'' StatusBadRequest NoData,
        (world0 Map.empty bs)
          \<lparr>calls := [CallCheck dummyNamespace dummyOTPID False],
            logged := [(''error checking OTP status: %v'', Some (Err ''connection refused''))]\<rparr>)
   \<and> StatusBadRequest = 400"
  by (simp add: fixture_defs handler_defs)

subsection \<open>C7: the symbols of a generated string\<close>

text \<open>
  The claim fails at "uniformly". Under the map from bytes to symbols of the numeric
  alphabet, 26 of the 256 bytes give the symbol \<open>0\<close> and 25 give the symbol \<open>9\<close>.
\<close>

theorem numeric_symbols_not_uniform:
  "preimages numChars (CHR ''0'') = 26 \<and> preimages numChars (CHR ''9'') = 25"
proof -
  have a: "preimages numChars (numChars ! 0) = 26"
    using preimages_count[OF distinct_numChars, of 0] by (simp add: length_numChars)
  have b: "preimages numChars (numChars ! 9) = 25"
    using preimages_count[OF distinct_numChars, of 9] by (simp add: length_numChars)
  have "numChars ! 0 = CHR ''0''" and "numChars ! 9 = CHR ''9''"
    by (simp_all add: numChars_def)
  with a b show ?thesis by simp
qed

text \<open>
  C7, amended. For each of the two alphabets in use and every length \<open>n \<ge> 0\<close>, when the
  random source delivers \<open>n\<close> bytes the generator returns, with no error, the string of
  exactly \<open>n\<close> symbols whose \<open>k\<close>-th symbol is \<^verbatim>\<open>chars[v % len(chars)]\<close> for the \<open>k\<close>-th
  byte \<open>v\<close> read, each a symbol of the alphabet, and takes just these bytes from the
  source. The map from bytes to symbols is not uniform: the symbol at index \<open>i\<close> of the
  alphabet comes from \<open>256 div len + 1\<close> of the 256 bytes when \<open>i < 256 mod len\<close> and
  from \<open>256 div len\<close> otherwise, that is 26 or 25 bytes for the numeric alphabet (the
  symbols \<open>0\<close> to \<open>5\<close> have 26) and 5 or 4 bytes for the alphanumeric one (the symbols
  \<open>A\<close> to \<open>H\<close> have 5).
\<close>

theorem generateRandomString_symbols:
  assumes "chars = numChars \<or> chars = alphaNumChars"
    and "0 \<le> n"
    and "nat n \<le> length (tape rs)"
  shows "generateRandomString n chars rs =
           (Ret (map (symbol chars) (take (nat n) (tape rs)), None),
            rs\<lparr>tape := drop (nat n) (tape rs)\<rparr>)
       \<and> length (map (symbol chars) (take (nat n) (tape rs))) = nat n
       \<and> set (map (symbol chars) (take (nat n) (tape rs))) \<subseteq> set chars
       \<and> (\<forall>i<length chars.
             preimages chars (chars ! i)
               = 256 div length chars + (if i < 256 mod length chars then 1 else 0))
       \<and> (\<forall>i<length numChars. preimages numChars (numChars ! i) = (if i < 6 then 26 else 25))
       \<and> (\<forall>i<length alphaNumChars.
             preimages alphaNumChars (alphaNumChars ! i) = (if i < 8 then 5 else 4))"
proof -
  note a = used_alphabet[OF assms(1)]
  have g: "generateRandomString n chars rs =
           (Ret (map (symbol chars) (take (nat n) (tape rs)), None),
            rs\<lparr>tape := drop (nat n) (tape rs)\<rparr>)"
    by (rule generateRandomString_delivers[OF assms(2,3) a(2,3)])
  have l: "length (map (symbol chars) (take (nat n) (tape rs))) = nat n"
    using assms(3) by simp
  have s: "set (map (symbol chars) (take (nat n) (tape rs))) \<subseteq> set chars"
    using symbol_in_alphabet[OF a(2,3)] by auto
  have p: "\<forall>i<length chars.
             preimages chars (chars ! i)
               = 256 div length chars + (if i < 256 mod length chars then 1 else 0)"
    using preimages_count[OF a] by blast
  have pn: "\<forall>i<length numChars. preimages numChars (numChars ! i) = (if i < 6 then 26 else 25)"
    using preimages_count[OF distinct_numChars] by (simp add: length_numChars)
  have pa: "\<forall>i<length alphaNumChars.
             preimages alphaNumChars (alphaNumChars ! i) = (if i < 8 then 5 else 4)"
    using preimages_count[OF distinct_alphaNumChars] by (simp add: length_alphaNumChars)
  from g l s p pn pa show ?thesis by blast
qed

text \<open>
  The theorem at a passcode of three digits read from the bytes 255, 10 and 7: the
  string is \<open>507\<close>, and the last symbol of the alphabet comes from 25 bytes.
\<close>

theorem generateRandomString_symbols_witness:
  "(numChars = numChars \<or> numChars = alphaNumChars)
   \<and> (0::int) \<le> 3
   \<and> nat 3 \<le> length (tape \<lparr>tape = [255, 10, 7, 9], failure = Err ''EOF''\<rparr>)
   \<and> generateRandomString 3 numChars \<lparr>tape = [255, 10, 7, 9], failure = Err ''EOF''\<rparr>
     = (Ret (''507'', None), \<lparr>tape = [9], failure = Err ''EOF''\<rparr>)
   \<and> preimages numChars (numChars ! 9) = 25"
proof -
  have h1: "numChars = numChars \<or> numChars = alphaNumChars" by simp
  have h2: "(0::int) \<le> 3" by simp
  have h3: "nat 3 \<le> length (tape \<lparr>tape = [255, 10, 7, 9], failure = Err ''EOF''\<rparr>)"
    by simp
  have v: "map (symbol numChars) [255, 10, 7] = ''507''"
    by (simp add: symbol_def numChars_def)
  show ?thesis
    using generateRandomString_symbols[OF h1 h2 h3] v
    by (simp add: length_numChars)
qed

subsection \<open>C9: what a lock response carries\<close>

text \<open>
  The claim fails on the Verify endpoint. A check against the test's record once four
  attempts are counted is answered 400 with the whole record as data, not with the
  three fields \<^verbatim>\<open>ttl_seconds\<close>, \<^verbatim>\<open>attempts\<close> and \<^verbatim>\<open>max_attempts\<close>.
\<close>

theorem verify_lock_response_is_record:
  "fst (handleCheckOTP testNotExistText testApp (checkReq dummyOTP) (world0 (storeWith 4) []))
     = Responded 400
         \<lparr>Status = ''error'', Message = ''Too many attempts. Please retry after 10 seconds.'',
          Data = DataOTP (storedOTP 5)\<rparr>
   \<and> DataOTP (storedOTP 5)
       \<noteq> DataErrResp \<lparr>errTTL = 10, errAttempts = 5, errMaxAttempts = 3\<rparr>"
  by (simp add: fixture_defs handler_defs fmtSeconds_def round_half_even_def)

text \<open>
  C9, amended. On the Issue endpoint, a request with a known provider, an address the
  provider accepts, an id of six characters or more and a passcode (supplied, or
  generated from a source that delivers) whose key the store reports locked is
  answered 400 with the data \<^verbatim>\<open>{ttl_seconds, attempts, max_attempts}\<close>: the record's
  remaining TTL in seconds, the record's attempts, and the maximum the application is
  configured with. On the Verify endpoint, a request with an id of six characters or
  more and a passcode whose key the store reports locked is answered 400 with the
  record the read returned as data, which holds its attempts, its maximum and its TTL
  among its fields.
\<close>

theorem lock_responses_payload:
  assumes "providers app (FormValue r ''provider'') = Some pro"
    and "ValidateAddress pro (FormValue r ''to'') = None"
    and "6 \<le> length (url_id r)"
    and "FormValue r ''otp'' \<noteq> []
         \<or> (0 \<le> MaxOTPLen pro \<and> nat (MaxOTPLen pro) \<le> length (tape (rand w)))"
    and "Check (store app) (store_state w) (ctx_namespace r) (url_id r) False
           = ((rec, None), s1)"
    and "isLocked rec"
    and "6 \<le> length (url_id r')"
    and "FormValue r' ''otp'' \<noteq> []"
    and "Check (store app) (store_state w') (ctx_namespace r') (url_id r') True
           = ((rec', None), s1')"
    and "isLocked rec'"
  shows "fst (handleSetOTP t app r w) =
           Responded StatusBadRequest
             \<lparr>Status = ''error'',
              Message = ''OTP attempts exceeded. Retry after '' @ fmtSeconds (TTL rec)
                          @ '' seconds.'',
              Data = DataErrResp \<lparr>errTTL = Seconds (TTL rec), errAttempts = Attempts rec,
                                  errMaxAttempts = otpMaxAttempts app\<rparr>\<rparr>
       \<and> fst (handleCheckOTP t app r' w') =
           Responded StatusBadRequest
             \<lparr>Status = ''error'',
              Message = ''Too many attempts. Please retry after '' @ fmtSeconds (TTL rec')
                          @ '' seconds.'',
              Data = DataOTP rec'\<rparr>"
proof -
  have issue: "fst (handleSetOTP_otp app pro (ctx_namespace r) (url_id r)
                 (FormValue r ''provider'') (FormValue r ''description'') (FormValue r ''to'')
                 (FormValue r ''otp'') w)
      = sendErrorResponse
          (''OTP attempts exceeded. Retry after '' @ fmtSeconds (TTL rec) @ '' seconds.'')
          StatusBadRequest
          (DataErrResp \<lparr>errTTL = Seconds (TTL rec), errAttempts = Attempts rec,
                        errMaxAttempts = otpMaxAttempts app\<rparr>)"
  proof (cases "FormValue r ''otp'' = []")
    case False
    then show ?thesis
      using handleSetOTP_store_locked[OF assms(5,6)] by (simp add: handleSetOTP_otp_def)
  next
    case True
    with assms(4) have n: "0 \<le> MaxOTPLen pro" "nat (MaxOTPLen pro) \<le> length (tape (rand w))"
      by simp_all
    have g: "generateRandomString (MaxOTPLen pro) numChars (rand w) =
       (Ret (map (symbol numChars) (take (nat (MaxOTPLen pro)) (tape (rand w))), None),
        (rand w)\<lparr>tape := drop (nat (MaxOTPLen pro)) (tape (rand w))\<rparr>)"
      by (rule generateRandomString_delivers[OF n]) (simp_all add: length_numChars)
    have st: "Check (store app)
        (store_state (w\<lparr>rand := (rand w)\<lparr>tape := drop (nat (MaxOTPLen pro)) (tape (rand w))\<rparr>\<rparr>))
        (ctx_namespace r) (url_id r) False = ((rec, None), s1)"
      using assms(5) by simp
    show ?thesis
      using True g handleSetOTP_store_locked[OF st assms(6)]
      by (simp add: handleSetOTP_otp_def)
  qed
  have "fst (handleSetOTP t app r w) =
      sendErrorResponse
          (''OTP attempts exceeded. Retry after '' @ fmtSeconds (TTL rec) @ '' seconds.'')
          StatusBadRequest
          (DataErrResp \<lparr>errTTL = Seconds (TTL rec), errAttempts = Attempts rec,
                        errMaxAttempts = otpMaxAttempts app\<rparr>)"
    using assms(1,2,3) issue by (auto simp: handleSetOTP_def Let_def)
  moreover have "fst (handleCheckOTP t app r' w') =
      sendErrorResponse
          (''Too many attempts. Please retry after '' @ fmtSeconds (TTL rec') @ '' seconds.'')
          StatusBadRequest (DataOTP rec')"
    using handleCheckOTP_failed[OF assms(9) _ assms(7,8), of t] assms(10) by simp
  ultimately show ?thesis by (simp add: sendErrorResponse_def)
qed

text \<open>
  The theorem at the test's record with four attempts counted: a new registration of
  the key is answered with the three fields, a check with the record.
\<close>

theorem lock_responses_payload_witness:
  "providers testApp (FormValue setReq ''provider'') = Some dummyProv
   \<and> ValidateAddress dummyProv (FormValue setReq ''to'') = None
   \<and> 6 \<le> length (url_id setReq)
   \<and> FormValue setReq ''otp'' \<noteq> []
   \<and> Check (store testApp) (store_state (world0 (storeWith 4) []))
         (ctx_namespace setReq) (url_id setReq) False = ((storedOTP 4, None), storeWith 4)
   \<and> isLocked (storedOTP 4)
   \<and> FormValue (checkReq dummyOTP) ''otp'' \<noteq> []
   \<and> Check (store testApp) (store_state (world0 (storeWith 4) []))
         (ctx_namespace (checkReq dummyOTP)) (url_id (checkReq dummyOTP)) True
         = ((storedOTP 5, None), storeWith 5)
   \<and> isLocked (storedOTP 5)
   \<and> fst (handleSetOTP testNotExistText testApp setReq (world0 (storeWith 4) [])) =
       Responded 400
         \<lparr>Status = ''error'', Message = ''OTP attempts exceeded. Retry after 10 seconds.'',
          Data = DataErrResp \<lparr>errTTL = 10, errAttempts = 4, errMaxAttempts = 3\<rparr>\<rparr>
   \<and> fst (handleCheckOTP testNotExistText testApp (checkReq dummyOTP)
            (world0 (storeWith 4) [])) =
       Responded 400
         \<lparr>Status = ''error'', Message = ''Too many attempts. Please retry after 10 seconds.'',
          Data = DataOTP (storedOTP 5)\<rparr>"
proof -
  have h1: "providers testApp (FormValue setReq ''provider'') = Some dummyProv"
    by (simp add: testApp_def setReq_def FormValue_def dummyProvider_def)
  have h2: "ValidateAddress dummyProv (FormValue setReq ''to'') = None"
    by (simp add: dummyProv_def setReq_def FormValue_def)
  have h3: "6 \<le> length (url_id setReq)"
    by (simp add: setReq_def dummyOTPID_def)
  have h4: "FormValue setReq ''otp'' \<noteq> []"
    by (simp add: setReq_def FormValue_def dummyOTP_def)
  have h5: "Check (store testApp) (store_state (world0 (storeWith 4) []))
         (ctx_namespace setReq) (url_id setReq) False = ((storedOTP 4, None), storeWith 4)"
    by (simp add: fixture_defs handler_defs)
  have h6: "isLocked (storedOTP 4)"
    by (simp add: storedOTP_def isLocked_def)
  have h7: "6 \<le> length (url_id (checkReq dummyOTP))"
    by (simp add: checkReq_def dummyOTPID_def)
  have h8: "FormValue (checkReq dummyOTP) ''otp'' \<noteq> []"
    by (simp add: checkReq_def FormValue_def dummyOTP_def)
  have h9: "Check (store testApp) (store_state (world0 (storeWith 4) []))
         (ctx_namespace (checkReq dummyOTP)) (url_id (checkReq dummyOTP)) True
         = ((storedOTP 5, None), storeWith 5)"
    by (simp add: fixture_defs handler_defs)
  have h10: "isLocked (storedOTP 5)"
    by (simp add: storedOTP_def isLocked_def)
  have e: "fmtSeconds (TTL (storedOTP 4)) = ''10''" "fmtSeconds (TTL (storedOTP 5)) = ''10''"
    "Seconds (TTL (storedOTP 4)) = 10" "Attempts (storedOTP 4) = 4"
    "otpMaxAttempts testApp = 3" "StatusBadRequest = 400"
    by (simp_all add: storedOTP_def fmtSeconds_def round_half_even_def Seconds_def testApp_def
        StatusBadRequest_def)
  have h4': "FormValue setReq ''otp'' \<noteq> []
         \<or> (0 \<le> MaxOTPLen dummyProv
            \<and> nat (MaxOTPLen dummyProv) \<le> length (tape (rand (world0 (storeWith 4) []))))"
    using h4 by simp
  show ?thesis
    using lock_responses_payload[OF h1 h2 h3 h4' h5 h6 h7 h8 h9 h10, of testNotExistText]
      h1 h2 h3 h4 h5 h6 h8 h9 h10 e
    by simp
qed

subsection \<open>C10: what a failed Verify discloses\<close>

text \<open>
  C10. When a Verify through \<^verbatim>\<open>POST /api/otp/{id}\<close> has an id of six characters or more
  and a passcode, the read succeeds, and the record \<open>rec\<close> it returns is locked or has
  another passcode than the one supplied, the handler answers 400 with the whole
  record \<open>rec\<close> as the data of the error response, its field \<open>OTP\<close> included. That field
  is the secret: unless the record is locked, a Verify that supplies it in the same
  world succeeds and closes the record.
\<close>

theorem failed_verify_discloses_record:
  assumes "6 \<le> length (url_id r)"
    and "FormValue r ''otp'' \<noteq> []"
    and "Check (store app) (store_state w) (ctx_namespace r) (url_id r) True
           = ((rec, None), s1)"
    and "isLocked rec \<or> OTP rec \<noteq> FormValue r ''otp''"
  shows "fst (handleCheckOTP t app r w) =
           Responded StatusBadRequest
             \<lparr>Status = ''error'',
              Message = (if isLocked rec
                         then ''Too many attempts. Please retry after ''
                                @ fmtSeconds (TTL rec) @ '' seconds.''
                         else ''OTP does not match''),
              Data = DataOTP rec\<rparr>
       \<and> (\<exists>code body. fst (handleCheckOTP t app r w) = Responded code body
                      \<and> code = 400 \<and> Data body = DataOTP rec)
       \<and> (\<not> isLocked rec \<longrightarrow>
            fst (checkOTP (ctx_namespace r) (url_id r) (OTP rec) app w)
              = (rec\<lparr>Closed := True\<rparr>, None))"
proof -
  have a: "fst (handleCheckOTP t app r w) =
           Responded StatusBadRequest
             \<lparr>Status = ''error'',
              Message = (if isLocked rec
                         then ''Too many attempts. Please retry after ''
                                @ fmtSeconds (TTL rec) @ '' seconds.''
                         else ''OTP does not match''),
              Data = DataOTP rec\<rparr>"
    using handleCheckOTP_failed[OF assms(3,4,1,2), of t]
    by (simp add: sendErrorResponse_def)
  have b: "\<not> isLocked rec \<longrightarrow>
            fst (checkOTP (ctx_namespace r) (url_id r) (OTP rec) app w)
              = (rec\<lparr>Closed := True\<rparr>, None)"
    using checkOTP_match[OF assms(3), of "OTP rec"] by simp
  from a b show ?thesis by (simp add: StatusBadRequest_def)
qed

text \<open>
  The theorem at the test's record and the wrong passcode \<^verbatim>\<open>123\<close>: the answer carries
  the record, and with it the passcode \<^verbatim>\<open>123456\<close>, which verifies.
\<close>

theorem failed_verify_discloses_record_witness:
  "6 \<le> length (url_id (checkReq ''123''))
   \<and> FormValue (checkReq ''123'') ''otp'' \<noteq> []
   \<and> Check (store testApp) (store_state (world0 (storeWith 1) []))
         (ctx_namespace (checkReq ''123'')) (url_id (checkReq ''123'')) True
         = ((storedOTP 2, None), storeWith 2)
   \<and> OTP (storedOTP 2) \<noteq> FormValue (checkReq ''123'') ''otp''
   \<and> fst (handleCheckOTP testNotExistText testApp (checkReq ''123'') (world0 (storeWith 1) []))
       = Responded 400
           \<lparr>Status = ''error'', Message = ''OTP does not match'',
            Data = DataOTP (storedOTP 2)\<rparr>
   \<and> OTP (storedOTP 2) = ''123456''
   \<and> \<not> isLocked (storedOTP 2)
   \<and> fst (checkOTP dummyNamespace dummyOTPID ''123456'' testApp (world0 (storeWith 1) []))
       = ((storedOTP 2)\<lparr>Closed := True\<rparr>, None)"
proof -
  have h1: "6 \<le> length (url_id (checkReq ''123''))"
    by (simp add: checkReq_def dummyOTPID_def)
  have h2: "FormValue (checkReq ''123'') ''otp'' \<noteq> []"
    by (simp add: checkReq_def FormValue_def)
  have h3: "Check (store testApp) (store_state (world0 (storeWith 1) []))
         (ctx_namespace (checkReq ''123'')) (url_id (checkReq ''123'')) True
         = ((storedOTP 2, None), storeWith 2)"
    by (simp add: fixture_defs handler_defs)
  have ne: "OTP (storedOTP 2) \<noteq> FormValue (checkReq ''123'') ''otp''"
    by (simp add: storedOTP_def checkReq_def FormValue_def dummyOTP_def)
  then have h4: "isLocked (storedOTP 2) \<or> OTP (storedOTP 2) \<noteq> FormValue (checkReq ''123'') ''otp''"
    by simp
  have e: "\<not> isLocked (storedOTP 2)" "OTP (storedOTP 2) = ''123456''" "StatusBadRequest = 400"
    "ctx_namespace (checkReq ''123'') = dummyNamespace" "url_id (checkReq ''123'') = dummyOTPID"
    by (simp_all add: storedOTP_def isLocked_def dummyOTP_def StatusBadRequest_def checkReq_def)
  show ?thesis
    using failed_verify_discloses_record[OF h1 h2 h3 h4, of testNotExistText] h1 h2 h3 ne e
    by simp
qed

end
